theory Spec2Isabelle
  imports Complex_Main
begin

section \<open>Data model of \<open>stockmarket.py\<close>\<close>

text \<open>
  Python numbers are either unbounded integers or floats. The two are kept apart, as the
  source keeps them apart (\<open>str_to_float\<close> returns a non-string argument as it is), and
  a float carries a real number: arithmetic is exact, there is no rounding error, no
  infinity and no NaN.
\<close>

datatype pynum = PInt int | PFloat real

text \<open>An argument annotated \<open>int | float | str\<close>.\<close>

datatype pyval = Num pynum | Str string

text \<open>
  Every \<open>raise ValueError(...)\<close> of the source is one constructor, named after the
  condition it reports; \<open>InvalidNumericFormat\<close> is the \<open>ValueError\<close> of the builtin
  \<open>float\<close>. The last three are the exceptions the interpreter itself raises.
\<close>

datatype error =
    UnknownSymbol
  | InvalidNumericFormat
  | InvalidOrderSide
  | InvalidPrice
  | DivisionByZero
  | NoTradesInWindow
  | ZeroDivisionError
  | TypeError
  | KeyError

record stock =
  stock_type :: string
  last_dividend :: pynum
  fixed_dividend :: "pynum option"
  par_value :: pynum

definition exchange_data :: "(string \<times> stock) list" where
  "exchange_data =
    [(''TEA'', \<lparr>stock_type = ''Common'', last_dividend = PInt 0,
               fixed_dividend = None, par_value = PInt 100\<rparr>),
     (''POP'', \<lparr>stock_type = ''Common'', last_dividend = PInt 8,
               fixed_dividend = None, par_value = PInt 100\<rparr>),
     (''ALE'', \<lparr>stock_type = ''Common'', last_dividend = PInt 23,
               fixed_dividend = None, par_value = PInt 60\<rparr>),
     (''GIN'', \<lparr>stock_type = ''Preferred'', last_dividend = PInt 8,
               fixed_dividend = Some (PInt 2), par_value = PInt 100\<rparr>),
     (''JOE'', \<lparr>stock_type = ''Common'', last_dividend = PInt 13,
               fixed_dividend = None, par_value = PInt 250\<rparr>)]"

record trade =
  timestamp :: real
  order :: string
  quantity :: pynum
  traded_price :: pynum

text \<open>
  \<open>self.trades\<close>: a dict keeps its keys in insertion order, and \<open>calculate_gbce\<close>
  iterates over them, so the store is an association list in that order.
\<close>

type_synonym trades = "(string \<times> trade list) list"

section \<open>Arithmetic of the interpreter\<close>

fun num_val :: "pynum \<Rightarrow> real" where
  "num_val (PInt i) = of_int i"
| "num_val (PFloat r) = r"

fun num_add :: "pynum \<Rightarrow> pynum \<Rightarrow> pynum" where
  "num_add (PInt i) (PInt j) = PInt (i + j)"
| "num_add a b = PFloat (num_val a + num_val b)"

fun num_mul :: "pynum \<Rightarrow> pynum \<Rightarrow> pynum" where
  "num_mul (PInt i) (PInt j) = PInt (i * j)"
| "num_mul a b = PFloat (num_val a * num_val b)"

text \<open>The operator \<open>/\<close>: true division, a float whatever the operands are.\<close>

definition num_truediv :: "pynum \<Rightarrow> pynum \<Rightarrow> error + pynum" where
  "num_truediv a b =
     (if num_val b = 0 then Inl ZeroDivisionError
      else Inr (PFloat (num_val a / num_val b)))"

section \<open>Validation\<close>

definition validate_stock_symbol :: "string \<Rightarrow> error + string" where
  "validate_stock_symbol symbol =
     (if symbol \<notin> set (map fst exchange_data) then Inl UnknownSymbol
      else Inr symbol)"

text \<open>
  The builtin \<open>float\<close> on a string is a parameter \<open>pyfloat\<close>: \<open>None\<close> where it raises
  \<open>ValueError\<close>, the number it returns otherwise.
\<close>

definition str_to_float :: "(string \<Rightarrow> real option) \<Rightarrow> pyval \<Rightarrow> error + pynum" where
  "str_to_float pyfloat v =
     (case v of
        Str s \<Rightarrow> (case pyfloat s of
                    None \<Rightarrow> Inl InvalidNumericFormat
                  | Some r \<Rightarrow> Inr (PFloat r))
      | Num n \<Rightarrow> Inr n)"

definition validate_order :: "string \<Rightarrow> error + string" where
  "validate_order ord =
     (if ord \<noteq> ''Buy'' \<and> ord \<noteq> ''Sell'' then Inl InvalidOrderSide else Inr ord)"

section \<open>Dividend yield and P/E ratio\<close>

definition calculate_dividend_yield ::
    "(string \<Rightarrow> real option) \<Rightarrow> string \<Rightarrow> pyval \<Rightarrow> error + pynum" where
  "calculate_dividend_yield pyfloat symbol price =
     (case validate_stock_symbol symbol of
        Inl e \<Rightarrow> Inl e
      | Inr symbol' \<Rightarrow>
     (case str_to_float pyfloat price of
        Inl e \<Rightarrow> Inl e
      | Inr price' \<Rightarrow>
     (case map_of exchange_data symbol' of
        None \<Rightarrow> Inl KeyError
      | Some stock \<Rightarrow>
          if num_val price' \<le> 0 then Inl InvalidPrice
          else if stock_type stock = ''Common''
               then num_truediv (last_dividend stock) price'
          else (case fixed_dividend stock of
                  None \<Rightarrow> Inl TypeError
                | Some fd \<Rightarrow> num_truediv (num_mul fd (par_value stock)) price'))))"

definition calculate_pe_ratio ::
    "(string \<Rightarrow> real option) \<Rightarrow> string \<Rightarrow> pyval \<Rightarrow> error + pynum" where
  "calculate_pe_ratio pyfloat symbol price =
     (case validate_stock_symbol symbol of
        Inl e \<Rightarrow> Inl e
      | Inr symbol' \<Rightarrow>
     (case str_to_float pyfloat price of
        Inl e \<Rightarrow> Inl e
      | Inr price' \<Rightarrow>
     (case calculate_dividend_yield pyfloat symbol' (Num price') of
        Inl e \<Rightarrow> Inl e
      | Inr dividend \<Rightarrow>
          if num_val dividend = 0 then Inl DivisionByZero
          else num_truediv price' dividend)))"

section \<open>Trade recording\<close>

text \<open>
  \<open>now\<close> is the reading of the wall clock, \<open>datetime.datetime.now().timestamp()\<close>, in
  seconds. The argument \<open>ord\<close> is \<open>None\<close> when the caller leaves the default
  \<open>order = "Buy"\<close>. The result is the returned trade or the exception, and the store as
  the call leaves it.
\<close>

definition record_trade ::
    "(string \<Rightarrow> real option) \<Rightarrow> real \<Rightarrow> string \<Rightarrow> pyval \<Rightarrow> pyval \<Rightarrow> string option \<Rightarrow>
     trades \<Rightarrow> (error + trade) \<times> trades" where
  "record_trade pyfloat now symbol qty price ord trades =
     (case validate_stock_symbol symbol of
        Inl e \<Rightarrow> (Inl e, trades)
      | Inr symbol' \<Rightarrow>
     (case str_to_float pyfloat qty of
        Inl e \<Rightarrow> (Inl e, trades)
      | Inr quantity' \<Rightarrow>
     (case str_to_float pyfloat price of
        Inl e \<Rightarrow> (Inl e, trades)
      | Inr price' \<Rightarrow>
     (case validate_order (case ord of None \<Rightarrow> ''Buy'' | Some s \<Rightarrow> s) of
        Inl e \<Rightarrow> (Inl e, trades)
      | Inr order' \<Rightarrow>
          (let trade_data = \<lparr>timestamp = now,
                             order = (if order' = ''Buy'' then ''Buy'' else ''Sell''),
                             quantity = quantity',
                             traded_price = price'\<rparr>
           in if symbol' \<notin> set (map fst trades)
              then (Inr trade_data, trades @ [(symbol', [trade_data])])
              else (Inr trade_data,
                    map (\<lambda>(k, ts). if k = symbol' then (k, ts @ [trade_data]) else (k, ts))
                      trades))))))"

section \<open>Volume weighted stock price\<close>

text \<open>The \<open>for\<close> loop over one symbol's trades, carrying the two running totals.\<close>

fun vws_loop :: "real \<Rightarrow> trade list \<Rightarrow> pynum \<times> pynum \<Rightarrow> pynum \<times> pynum" where
  "vws_loop t5 [] acc = acc"
| "vws_loop t5 (t # ts) (total_trade_amount, total_qty) =
     (if timestamp t \<ge> t5
      then vws_loop t5 ts
             (num_add total_trade_amount (num_mul (traded_price t) (quantity t)),
              num_add total_qty (quantity t))
      else vws_loop t5 ts (total_trade_amount, total_qty))"

definition calculate_vws_price :: "real \<Rightarrow> trades \<Rightarrow> string \<Rightarrow> error + pynum" where
  "calculate_vws_price now trades symbol =
     (case validate_stock_symbol symbol of
        Inl e \<Rightarrow> Inl e
      | Inr symbol' \<Rightarrow>
          (let time_before_5_min = now - 300 in
           if symbol' \<in> set (map fst trades) then
             (case map_of trades symbol' of
                None \<Rightarrow> Inl KeyError
              | Some ts \<Rightarrow>
                  (case vws_loop time_before_5_min ts (PInt 0, PInt 0) of
                     (total_trade_amount, total_qty) \<Rightarrow>
                       if num_val total_qty = 0 then Inl NoTradesInWindow
                       else num_truediv total_trade_amount total_qty))
           else Inr (PInt 0)))"

section \<open>GBCE all share index\<close>

text \<open>
  The operator \<open>**\<close> with a float exponent. A negative base with an exponent that is
  not a whole number gives a complex number, of which only the fact is kept.
\<close>

datatype pow_result = PowFloat real | PowComplex

definition py_pow :: "pynum \<Rightarrow> pynum \<Rightarrow> error + pow_result" where
  "py_pow b e =
     (let x = num_val b; y = num_val e in
      if y = 0 then Inr (PowFloat 1)
      else if x = 0 then (if y < 0 then Inl ZeroDivisionError else Inr (PowFloat 0))
      else if 0 < x then Inr (PowFloat (x powr y))
      else if y = of_int \<lfloor>y\<rfloor> then Inr (PowFloat (x powi \<lfloor>y\<rfloor>))
      else Inr PowComplex)"

text \<open>
  The builtin \<open>round\<close> with a number of digits: on a float, the nearest multiple of
  \<open>10 ^ -ndigits\<close>, a tie going to the even one; a complex number has no \<open>__round__\<close>.
\<close>

definition round_half_even :: "real \<Rightarrow> int" where
  "round_half_even x =
     (let f = \<lfloor>x\<rfloor>; d = x - of_int f in
      if d < 1 / 2 then f
      else if 1 / 2 < d then f + 1
      else if even f then f else f + 1)"

definition py_round :: "pow_result \<Rightarrow> nat \<Rightarrow> error + pynum" where
  "py_round v ndigits =
     (case v of
        PowComplex \<Rightarrow> Inl TypeError
      | PowFloat x \<Rightarrow>
          Inr (PFloat (of_int (round_half_even (x * 10 ^ ndigits)) / 10 ^ ndigits)))"

text \<open>
  The \<open>for\<close> loop over the keys of the store. Each call of \<open>calculate_vws_price\<close> reads
  the clock anew: the call for the \<open>i\<close>-th key reads \<open>clock i\<close>.
\<close>

fun gbce_loop ::
    "(nat \<Rightarrow> real) \<Rightarrow> trades \<Rightarrow> nat \<Rightarrow> string list \<Rightarrow> pynum \<Rightarrow> error + pynum" where
  "gbce_loop clock trades i [] total_vws_price = Inr total_vws_price"
| "gbce_loop clock trades i (symbol # rest) total_vws_price =
     (case calculate_vws_price (clock i) trades symbol of
        Inl e \<Rightarrow> Inl e
      | Inr v \<Rightarrow> gbce_loop clock trades (Suc i) rest (num_mul total_vws_price v))"

definition calculate_gbce :: "(nat \<Rightarrow> real) \<Rightarrow> trades \<Rightarrow> error + pynum" where
  "calculate_gbce clock trades =
     (case (if trades \<noteq> [] then gbce_loop clock trades 0 (map fst trades) (PInt 1)
            else Inr (PInt 1)) of
        Inl e \<Rightarrow> Inl e
      | Inr total_vws_price \<Rightarrow>
     (case num_truediv (PInt 1) (PInt (int (length (map fst trades)))) of
        Inl e \<Rightarrow> Inl e
      | Inr exponent \<Rightarrow>
     (case py_pow total_vws_price exponent of
        Inl e \<Rightarrow> Inl e
      | Inr gbce \<Rightarrow> py_round gbce 3)))"

section \<open>The exchange as a state machine\<close>

text \<open>
  One constructor for each method of \<open>StockMarket\<close>; \<open>step\<close> runs a call on a store and
  gives what the call returns or raises and the store it leaves.
\<close>

datatype operation =
    ValidateStockSymbol string
  | StrToFloat pyval
  | ValidateOrder string
  | CalculateDividendYield string pyval
  | CalculatePeRatio string pyval
  | RecordTrade string pyval pyval "string option"
  | CalculateVwsPrice string
  | CalculateGbce

datatype retval = RStr string | RNum pynum | RTrade trade

fun step ::
    "(string \<Rightarrow> real option) \<Rightarrow> (nat \<Rightarrow> real) \<Rightarrow> operation \<Rightarrow> trades \<Rightarrow>
     (error + retval) \<times> trades" where
  "step pyfloat clock (ValidateStockSymbol symbol) trades =
     (map_sum id RStr (validate_stock_symbol symbol), trades)"
| "step pyfloat clock (StrToFloat v) trades =
     (map_sum id RNum (str_to_float pyfloat v), trades)"
| "step pyfloat clock (ValidateOrder ord) trades =
     (map_sum id RStr (validate_order ord), trades)"
| "step pyfloat clock (CalculateDividendYield symbol price) trades =
     (map_sum id RNum (calculate_dividend_yield pyfloat symbol price), trades)"
| "step pyfloat clock (CalculatePeRatio symbol price) trades =
     (map_sum id RNum (calculate_pe_ratio pyfloat symbol price), trades)"
| "step pyfloat clock (RecordTrade symbol qty price ord) trades =
     (case record_trade pyfloat (clock 0) symbol qty price ord trades of
        (r, trades') \<Rightarrow> (map_sum id RTrade r, trades'))"
| "step pyfloat clock (CalculateVwsPrice symbol) trades =
     (map_sum id RNum (calculate_vws_price (clock 0) trades symbol), trades)"
| "step pyfloat clock CalculateGbce trades =
     (map_sum id RNum (calculate_gbce clock trades), trades)"

text \<open>A session: calls made one after the other, each with its own clock readings.\<close>

fun run ::
    "(string \<Rightarrow> real option) \<Rightarrow> ((nat \<Rightarrow> real) \<times> operation) list \<Rightarrow> trades \<Rightarrow> trades" where
  "run pyfloat [] trades = trades"
| "run pyfloat ((clock, oper) # rest) trades =
     run pyfloat rest (snd (step pyfloat clock oper trades))"

section \<open>Equality of values\<close>

text \<open>
  The operator \<open>==\<close>: an integer and a float are equal when they are the same number,
  two trades (dicts) when their entries are. Two stores are compared key by key in the
  order of insertion, which is more than \<open>==\<close> on dicts asks for.
\<close>

definition num_eq :: "pynum \<Rightarrow> pynum \<Rightarrow> bool" where
  "num_eq a b \<longleftrightarrow> num_val a = num_val b"

definition trade_eq :: "trade \<Rightarrow> trade \<Rightarrow> bool" where
  "trade_eq t u \<longleftrightarrow>
     timestamp t = timestamp u \<and> order t = order u
     \<and> num_eq (quantity t) (quantity u) \<and> num_eq (traded_price t) (traded_price u)"

definition trades_eq :: "trades \<Rightarrow> trades \<Rightarrow> bool" where
  "trades_eq a b \<longleftrightarrow>
     list_all2 (\<lambda>x y. fst x = fst y \<and> list_all2 trade_eq (snd x) (snd y)) a b"

section \<open>The catalogue\<close>

lemma map_of_exchange_data:
  "map_of exchange_data symbol = Some st \<Longrightarrow>
     (symbol = ''TEA'' \<and> st = \<lparr>stock_type = ''Common'', last_dividend = PInt 0,
                                fixed_dividend = None, par_value = PInt 100\<rparr>)
   \<or> (symbol = ''POP'' \<and> st = \<lparr>stock_type = ''Common'', last_dividend = PInt 8,
                                fixed_dividend = None, par_value = PInt 100\<rparr>)
   \<or> (symbol = ''ALE'' \<and> st = \<lparr>stock_type = ''Common'', last_dividend = PInt 23,
                                fixed_dividend = None, par_value = PInt 60\<rparr>)
   \<or> (symbol = ''GIN'' \<and> st = \<lparr>stock_type = ''Preferred'', last_dividend = PInt 8,
                                fixed_dividend = Some (PInt 2), par_value = PInt 100\<rparr>)
   \<or> (symbol = ''JOE'' \<and> st = \<lparr>stock_type = ''Common'', last_dividend = PInt 13,
                                fixed_dividend = None, par_value = PInt 250\<rparr>)"
  by (simp add: exchange_data_def split: if_splits)

lemma valid_symbol_iff:
  "symbol \<in> set (map fst exchange_data)
     \<longleftrightarrow> symbol \<in> {''TEA'', ''POP'', ''ALE'', ''GIN'', ''JOE''}"
  by (auto simp add: exchange_data_def)

lemma map_of_valid:
  "map_of exchange_data symbol = Some st \<Longrightarrow> symbol \<in> set (map fst exchange_data)"
  by (metis map_of_eq_None_iff option.distinct(1) set_map)

lemma validate_valid:
  "symbol \<in> set (map fst exchange_data) \<Longrightarrow> validate_stock_symbol symbol = Inr symbol"
  by (simp add: validate_stock_symbol_def)

section \<open>Dividend yield\<close>

lemma yield_coerced:
  "str_to_float pyfloat price = Inr p \<Longrightarrow>
   calculate_dividend_yield pyfloat symbol (Num p) = calculate_dividend_yield pyfloat symbol price"
  by (simp add: calculate_dividend_yield_def str_to_float_def split: sum.splits)

lemma yield_positive_price:
  assumes "map_of exchange_data symbol = Some st" and "str_to_float pyfloat price = Inr p"
    and "0 < num_val p"
  shows "\<exists>r. calculate_dividend_yield pyfloat symbol price = Inr (PFloat r)"
  using map_of_exchange_data[OF assms(1)] map_of_valid[OF assms(1)] assms
  by (auto simp add: calculate_dividend_yield_def validate_stock_symbol_def num_truediv_def)

text \<open>
  C3. For a symbol of the catalogue, with security \<open>st\<close>, and a price that coerces to
  \<open>p\<close>: \<open>calculate_dividend_yield\<close> fails with \<open>InvalidPrice\<close> exactly when \<open>p \<le> 0\<close>;
  for \<open>p > 0\<close> it returns \<open>last_dividend / p\<close> for a Common security and
  \<open>fixed_dividend * par_value / p\<close> for a Preferred one, the fixed dividend taken as it
  is stored and the quotient not rounded.
\<close>

theorem dividend_yield_spec:
  assumes "map_of exchange_data symbol = Some st"
    and "str_to_float pyfloat price = Inr p"
  shows "(calculate_dividend_yield pyfloat symbol price = Inl InvalidPrice \<longleftrightarrow> num_val p \<le> 0)
       \<and> (0 < num_val p \<longrightarrow>
            (stock_type st = ''Common'' \<longrightarrow>
               calculate_dividend_yield pyfloat symbol price
                 = Inr (PFloat (num_val (last_dividend st) / num_val p)))
          \<and> (stock_type st = ''Preferred'' \<longrightarrow>
               (\<exists>fd. fixed_dividend st = Some fd \<and>
                 calculate_dividend_yield pyfloat symbol price
                   = Inr (PFloat (num_val fd * num_val (par_value st) / num_val p)))))"
  using map_of_exchange_data[OF assms(1)] map_of_valid[OF assms(1)] assms
  by (auto simp add: calculate_dividend_yield_def validate_stock_symbol_def num_truediv_def)

theorem dividend_yield_spec_witness:
  "map_of exchange_data ''GIN'' = Some \<lparr>stock_type = ''Preferred'', last_dividend = PInt 8,
                                      fixed_dividend = Some (PInt 2), par_value = PInt 100\<rparr>
   \<and> str_to_float (\<lambda>s. if s = ''4'' then Some 4 else None) (Str ''4'') = Inr (PFloat 4)
   \<and> calculate_dividend_yield (\<lambda>s. if s = ''4'' then Some 4 else None) ''GIN'' (Str ''4'')
       = Inr (PFloat 50)"
proof -
  have h1: "map_of exchange_data ''GIN'' = Some \<lparr>stock_type = ''Preferred'',
      last_dividend = PInt 8, fixed_dividend = Some (PInt 2), par_value = PInt 100\<rparr>"
    by (simp add: exchange_data_def)
  have h2: "str_to_float (\<lambda>s. if s = ''4'' then Some 4 else None) (Str ''4'') = Inr (PFloat 4)"
    by (simp add: str_to_float_def)
  show ?thesis using dividend_yield_spec[OF h1 h2] h1 h2 by simp
qed

section \<open>P/E ratio\<close>

text \<open>
  C4. For a symbol of the catalogue and a price that coerces to a positive \<open>p\<close>, the
  dividend yield is some \<open>d\<close>; \<open>calculate_pe_ratio\<close> fails with \<open>DivisionByZero\<close> exactly
  when \<open>d\<close> is 0, which is so for TEA at every positive price, and returns \<open>p / d\<close>
  otherwise.
\<close>

theorem pe_ratio_spec:
  assumes "map_of exchange_data symbol = Some st"
    and "str_to_float pyfloat price = Inr p"
    and "0 < num_val p"
  shows "\<exists>d. calculate_dividend_yield pyfloat symbol price = Inr d
       \<and> (calculate_pe_ratio pyfloat symbol price = Inl DivisionByZero \<longleftrightarrow> num_val d = 0)
       \<and> (num_val d \<noteq> 0 \<longrightarrow>
            calculate_pe_ratio pyfloat symbol price = Inr (PFloat (num_val p / num_val d)))
       \<and> (symbol = ''TEA'' \<longrightarrow> calculate_pe_ratio pyfloat symbol price = Inl DivisionByZero)"
proof -
  obtain r where d: "calculate_dividend_yield pyfloat symbol price = Inr (PFloat r)"
    using yield_positive_price[OF assms] by blast
  have v: "validate_stock_symbol symbol = Inr symbol"
    using map_of_valid[OF assms(1)] by (rule validate_valid)
  have pe: "calculate_pe_ratio pyfloat symbol price =
      (if r = 0 then Inl DivisionByZero else Inr (PFloat (num_val p / r)))"
    using d v assms(2) yield_coerced[OF assms(2), of symbol]
    by (simp add: calculate_pe_ratio_def num_truediv_def)
  have tea: "symbol = ''TEA'' \<Longrightarrow> r = 0"
    using d assms(2,3)
    by (simp add: calculate_dividend_yield_def validate_stock_symbol_def exchange_data_def
        num_truediv_def split: if_splits)
  show ?thesis using d pe tea by auto
qed

theorem pe_ratio_spec_witness:
  "map_of exchange_data ''POP'' = Some \<lparr>stock_type = ''Common'', last_dividend = PInt 8,
                                      fixed_dividend = None, par_value = PInt 100\<rparr>
   \<and> str_to_float (\<lambda>s. None) (Num (PInt 2)) = Inr (PInt 2)
   \<and> 0 < num_val (PInt 2)
   \<and> calculate_dividend_yield (\<lambda>s. None) ''POP'' (Num (PInt 2)) = Inr (PFloat 4)
   \<and> calculate_pe_ratio (\<lambda>s. None) ''POP'' (Num (PInt 2)) = Inr (PFloat (1 / 2))"
proof -
  have h1: "map_of exchange_data ''POP'' = Some \<lparr>stock_type = ''Common'',
      last_dividend = PInt 8, fixed_dividend = None, par_value = PInt 100\<rparr>"
    by (simp add: exchange_data_def)
  have h2: "str_to_float (\<lambda>s. None) (Num (PInt 2)) = Inr (PInt 2)"
    by (simp add: str_to_float_def)
  have h3: "0 < num_val (PInt 2)" by simp
  have y: "calculate_dividend_yield (\<lambda>s. None) ''POP'' (Num (PInt 2)) = Inr (PFloat 4)"
    by (simp add: calculate_dividend_yield_def validate_stock_symbol_def exchange_data_def
        str_to_float_def num_truediv_def)
  show ?thesis using pe_ratio_spec[OF h1 h2 h3] h1 h2 y by auto
qed

section \<open>Symbols outside the catalogue\<close>

text \<open>
  C7. A symbol that is none of TEA, POP, ALE, GIN, JOE makes every method that takes a
  symbol fail with \<open>UnknownSymbol\<close> (and \<open>record_trade\<close> leave the store as it was); a
  symbol of the catalogue is returned unchanged by \<open>validate_stock_symbol\<close>.
\<close>

theorem unknown_symbol_spec:
  "(symbol \<notin> {''TEA'', ''POP'', ''ALE'', ''GIN'', ''JOE''} \<longrightarrow>
      validate_stock_symbol symbol = Inl UnknownSymbol
    \<and> calculate_dividend_yield pyfloat symbol price = Inl UnknownSymbol
    \<and> calculate_pe_ratio pyfloat symbol price = Inl UnknownSymbol
    \<and> record_trade pyfloat now symbol qty price ord trades = (Inl UnknownSymbol, trades)
    \<and> calculate_vws_price now trades symbol = Inl UnknownSymbol)
 \<and> (symbol \<in> {''TEA'', ''POP'', ''ALE'', ''GIN'', ''JOE''} \<longrightarrow>
      validate_stock_symbol symbol = Inr symbol)"
proof -
  have "validate_stock_symbol symbol =
      (if symbol \<in> {''TEA'', ''POP'', ''ALE'', ''GIN'', ''JOE''} then Inr symbol
       else Inl UnknownSymbol)"
    unfolding validate_stock_symbol_def valid_symbol_iff by simp
  then show ?thesis
    by (simp add: calculate_dividend_yield_def calculate_pe_ratio_def record_trade_def
        calculate_vws_price_def)
qed

theorem unknown_symbol_spec_witness:
  "''XYZ'' \<notin> {''TEA'', ''POP'', ''ALE'', ''GIN'', ''JOE''}
   \<and> calculate_pe_ratio (\<lambda>s. None) ''XYZ'' (Num (PInt 10)) = Inl UnknownSymbol
   \<and> record_trade (\<lambda>s. None) 0 ''XYZ'' (Num (PInt 1)) (Num (PInt 10)) None []
       = (Inl UnknownSymbol, [])
   \<and> ''GIN'' \<in> {''TEA'', ''POP'', ''ALE'', ''GIN'', ''JOE''}
   \<and> validate_stock_symbol ''GIN'' = Inr ''GIN''"
  using unknown_symbol_spec[of "''XYZ''" "\<lambda>s. None" "Num (PInt 10)" 0 "Num (PInt 1)" None "[]"]
    unknown_symbol_spec[of "''GIN''"]
  by simp

section \<open>Volume weighted stock price\<close>

lemma num_val_add [simp]: "num_val (num_add a b) = num_val a + num_val b"
  by (cases a; cases b) simp_all

lemma num_val_mul [simp]: "num_val (num_mul a b) = num_val a * num_val b"
  by (cases a; cases b) simp_all

lemma vws_loop_sums:
  "vws_loop t5 ts (a, q) = (a', q') \<Longrightarrow>
     num_val a' = num_val a
        + sum_list (map (\<lambda>t. num_val (traded_price t) * num_val (quantity t))
                     (filter (\<lambda>t. t5 \<le> timestamp t) ts))
   \<and> num_val q' = num_val q
        + sum_list (map (\<lambda>t. num_val (quantity t)) (filter (\<lambda>t. t5 \<le> timestamp t) ts))"
proof (induction ts arbitrary: a q)
  case Nil
  then show ?case by simp
next
  case (Cons t ts)
  show ?case
  proof (cases "t5 \<le> timestamp t")
    case True
    with Cons.prems have
      "vws_loop t5 ts (num_add a (num_mul (traded_price t) (quantity t)),
                       num_add q (quantity t)) = (a', q')"
      by simp
    from Cons.IH[OF this] True show ?thesis by (simp add: algebra_simps)
  next
    case False
    with Cons.prems have "vws_loop t5 ts (a, q) = (a', q')" by simp
    from Cons.IH[OF this] False show ?thesis by simp
  qed
qed

lemma vws_price_listed:
  assumes "symbol \<in> set (map fst exchange_data)" and "map_of trades symbol = Some ts"
  shows "calculate_vws_price now trades symbol =
     (let w = filter (\<lambda>t. now - 300 \<le> timestamp t) ts;
          amount = sum_list (map (\<lambda>t. num_val (traded_price t) * num_val (quantity t)) w);
          qty = sum_list (map (\<lambda>t. num_val (quantity t)) w)
      in if qty = 0 then Inl NoTradesInWindow else Inr (PFloat (amount / qty)))"
proof -
  obtain a q where l: "vws_loop (now - 300) ts (PInt 0, PInt 0) = (a, q)"
    by (cases "vws_loop (now - 300) ts (PInt 0, PInt 0)")
  have k: "symbol \<in> set (map fst trades)"
    using assms(2) by (metis map_of_eq_None_iff option.distinct(1) set_map)
  from vws_loop_sums[OF l] l k assms show ?thesis
    by (simp add: calculate_vws_price_def validate_valid num_truediv_def Let_def)
qed

text \<open>
  C1, as the code has it. For a symbol of the catalogue with a trade list, when the
  quantities of the trades stamped at or after \<open>now - 300\<close> seconds do not add up to 0,
  \<open>calculate_vws_price\<close> returns the sum of price times quantity over exactly those
  trades divided by the sum of their quantities; older trades enter neither sum.
\<close>

theorem vws_price_window:
  assumes "symbol \<in> set (map fst exchange_data)"
    and "map_of trades symbol = Some ts"
    and "sum_list (map (\<lambda>t. num_val (quantity t))
           (filter (\<lambda>t. now - 300 \<le> timestamp t) ts)) \<noteq> 0"
  shows "calculate_vws_price now trades symbol =
     Inr (PFloat
       (sum_list (map (\<lambda>t. num_val (traded_price t) * num_val (quantity t))
          (filter (\<lambda>t. now - 300 \<le> timestamp t) ts))
        / sum_list (map (\<lambda>t. num_val (quantity t))
          (filter (\<lambda>t. now - 300 \<le> timestamp t) ts))))"
  using vws_price_listed[OF assms(1,2), of now] assms(3) by (simp add: Let_def)

theorem vws_price_window_witness:
  "''POP'' \<in> set (map fst exchange_data)
   \<and> calculate_vws_price 1000
       [(''POP'', [\<lparr>timestamp = 640, order = ''Buy'', quantity = PInt 7, traded_price = PInt 90\<rparr>,
                  \<lparr>timestamp = 1000, order = ''Buy'', quantity = PInt 10, traded_price = PInt 100\<rparr>])]
       ''POP'' = Inr (PFloat 100)"
proof -
  have h1: "''POP'' \<in> set (map fst exchange_data)" by (simp add: exchange_data_def)
  show ?thesis
    using h1 vws_price_window[OF h1, of
       "[(''POP'', [\<lparr>timestamp = 640, order = ''Buy'', quantity = PInt 7, traded_price = PInt 90\<rparr>,
                  \<lparr>timestamp = 1000, order = ''Buy'', quantity = PInt 10, traded_price = PInt 100\<rparr>])]"
       _ 1000]
    by simp
qed

text \<open>
  A trade inside the window is not enough for a result: \<open>record_trade\<close> accepts the
  quantity 0, and the price of the symbol is then refused although its one trade was
  stamped this very second.
\<close>

theorem vws_price_window_counterexample:
  "record_trade (\<lambda>s. None) 1000 ''POP'' (Num (PInt 0)) (Num (PInt 100)) None []
     = (Inr \<lparr>timestamp = 1000, order = ''Buy'', quantity = PInt 0, traded_price = PInt 100\<rparr>,
        [(''POP'', [\<lparr>timestamp = 1000, order = ''Buy'', quantity = PInt 0,
                    traded_price = PInt 100\<rparr>])])
   \<and> 1000 - 300 \<le> timestamp \<lparr>timestamp = 1000, order = ''Buy'', quantity = PInt 0,
                               traded_price = PInt 100\<rparr>
   \<and> calculate_vws_price 1000
        [(''POP'', [\<lparr>timestamp = 1000, order = ''Buy'', quantity = PInt 0,
                    traded_price = PInt 100\<rparr>])] ''POP''
       = Inl NoTradesInWindow"
  by (simp add: record_trade_def calculate_vws_price_def validate_stock_symbol_def
      exchange_data_def str_to_float_def validate_order_def num_truediv_def Let_def)

text \<open>
  C5. For a symbol of the catalogue, \<open>calculate_vws_price\<close> returns 0, and no error,
  when the store has no list for the symbol, and fails with \<open>NoTradesInWindow\<close> when
  the list exists and the quantities of its trades inside the window add up to 0.
\<close>

theorem vws_price_degenerate:
  assumes "symbol \<in> set (map fst exchange_data)"
  shows "(map_of trades symbol = None \<longrightarrow> calculate_vws_price now trades symbol = Inr (PInt 0))
       \<and> (map_of trades symbol = Some ts
            \<and> sum_list (map (\<lambda>t. num_val (quantity t))
                 (filter (\<lambda>t. now - 300 \<le> timestamp t) ts)) = 0
          \<longrightarrow> calculate_vws_price now trades symbol = Inl NoTradesInWindow)"
proof (intro conjI impI)
  assume "map_of trades symbol = None"
  then have "symbol \<notin> set (map fst trades)"
    by (simp add: map_of_eq_None_iff)
  then show "calculate_vws_price now trades symbol = Inr (PInt 0)"
    using assms by (simp add: calculate_vws_price_def validate_valid)
next
  assume a: "map_of trades symbol = Some ts
             \<and> sum_list (map (\<lambda>t. num_val (quantity t))
                 (filter (\<lambda>t. now - 300 \<le> timestamp t) ts)) = 0"
  then show "calculate_vws_price now trades symbol = Inl NoTradesInWindow"
    using vws_price_listed[OF assms, of trades ts now] by (simp add: Let_def)
qed

theorem vws_price_degenerate_witness:
  "''TEA'' \<in> set (map fst exchange_data)
   \<and> ''POP'' \<in> set (map fst exchange_data)
   \<and> calculate_vws_price 1000
       [(''POP'', [\<lparr>timestamp = 640, order = ''Sell'', quantity = PInt 7, traded_price = PInt 90\<rparr>])]
       ''TEA'' = Inr (PInt 0)
   \<and> calculate_vws_price 1000
       [(''POP'', [\<lparr>timestamp = 640, order = ''Sell'', quantity = PInt 7, traded_price = PInt 90\<rparr>])]
       ''POP'' = Inl NoTradesInWindow"
proof -
  have h1: "''TEA'' \<in> set (map fst exchange_data)" by (simp add: exchange_data_def)
  have h2: "''POP'' \<in> set (map fst exchange_data)" by (simp add: exchange_data_def)
  show ?thesis
    using h1 h2
      vws_price_degenerate[OF h1, of
        "[(''POP'', [\<lparr>timestamp = 640, order = ''Sell'', quantity = PInt 7, traded_price = PInt 90\<rparr>])]"
        1000]
      vws_price_degenerate[OF h2, of
        "[(''POP'', [\<lparr>timestamp = 640, order = ''Sell'', quantity = PInt 7, traded_price = PInt 90\<rparr>])]"
        1000 "[\<lparr>timestamp = 640, order = ''Sell'', quantity = PInt 7, traded_price = PInt 90\<rparr>]"]
    by simp
qed

section \<open>Trade recording and the store\<close>

lemma record_trade_cases:
  "record_trade pyfloat now symbol qty price ord trades = (r, trades') \<Longrightarrow>
     (\<exists>e. r = Inl e \<and> trades' = trades)
   \<or> (\<exists>t. r = Inr t \<and> symbol \<notin> set (map fst trades) \<and> trades' = trades @ [(symbol, [t])])
   \<or> (\<exists>t. r = Inr t \<and> symbol \<in> set (map fst trades)
          \<and> trades' = map (\<lambda>(k, ts). if k = symbol then (k, ts @ [t]) else (k, ts)) trades)"
  by (auto simp add: record_trade_def validate_stock_symbol_def Let_def
      split: sum.splits if_splits)

lemma map_of_append_new:
  "symbol \<notin> set (map fst trades) \<Longrightarrow>
   map_of (trades @ [(symbol, v)]) = (map_of trades)(symbol \<mapsto> v)"
  by (induction trades) auto

lemma map_of_extend:
  "map_of (map (\<lambda>(k, ts). if k = symbol then (k, ts @ [t]) else (k, ts)) trades) k' =
     (if k' = symbol then map_option (\<lambda>ts. ts @ [t]) (map_of trades symbol)
      else map_of trades k')"
  by (induction trades) auto

lemma keys_extend:
  "map fst (map (\<lambda>(k, ts). if k = symbol then (k, ts @ [t]) else (k, ts)) trades)
     = map fst trades"
  by (induction trades) auto

text \<open>
  C9. A call of \<open>record_trade\<close> that returns the trade \<open>t\<close> leaves the symbol's list as
  it was (empty when the symbol had none) with \<open>t\<close> added at its end, every other symbol's
  list as it was, and the keys in their order, a new key last; a call that fails leaves
  the store as it was; and no method but \<open>record_trade\<close> changes the store.
\<close>

theorem record_trade_frame:
  "(record_trade pyfloat now symbol qty price ord trades = (Inr t, trades') \<longrightarrow>
      map_of trades' symbol
        = Some ((case map_of trades symbol of None \<Rightarrow> [] | Some ts \<Rightarrow> ts) @ [t])
    \<and> (\<forall>k. k \<noteq> symbol \<longrightarrow> map_of trades' k = map_of trades k)
    \<and> map fst trades' =
        (if symbol \<in> set (map fst trades) then map fst trades else map fst trades @ [symbol]))
 \<and> (record_trade pyfloat now symbol qty price ord trades = (Inl e, trades') \<longrightarrow>
      trades' = trades)
 \<and> ((\<forall>s q p d. oper \<noteq> RecordTrade s q p d) \<longrightarrow>
      snd (step pyfloat clock oper trades) = trades)"
proof -
  have ok: "map_of trades' symbol
        = Some ((case map_of trades symbol of None \<Rightarrow> [] | Some ts \<Rightarrow> ts) @ [t])
    \<and> (\<forall>k. k \<noteq> symbol \<longrightarrow> map_of trades' k = map_of trades k)
    \<and> map fst trades' =
        (if symbol \<in> set (map fst trades) then map fst trades else map fst trades @ [symbol])"
    if a: "record_trade pyfloat now symbol qty price ord trades = (Inr t, trades')"
  proof -
    from record_trade_cases[OF a]
    consider (new) "symbol \<notin> set (map fst trades)" "trades' = trades @ [(symbol, [t])]"
      | (old) "symbol \<in> set (map fst trades)"
          "trades' = map (\<lambda>(k, ts). if k = symbol then (k, ts @ [t]) else (k, ts)) trades"
      by auto
    then show ?thesis
    proof cases
      case new
      then have "map_of trades symbol = None" by (simp add: map_of_eq_None_iff)
      with new show ?thesis by (simp del: map_of_append add: map_of_append_new)
    next
      case old
      then obtain ts where "map_of trades symbol = Some ts"
        by (metis map_of_eq_None_iff not_Some_eq set_map)
      with old show ?thesis by (auto simp add: map_of_extend split: prod.splits)
    qed
  qed
  have failed: "trades' = trades"
    if "record_trade pyfloat now symbol qty price ord trades = (Inl e, trades')"
    using record_trade_cases[OF that] by auto
  have others: "snd (step pyfloat clock oper trades) = trades"
    if "\<forall>s q p d. oper \<noteq> RecordTrade s q p d"
    using that by (cases oper) simp_all
  from ok failed others show ?thesis by blast
qed


theorem record_trade_frame_witness:
  "record_trade (\<lambda>s. None) 20 ''POP'' (Num (PInt 5)) (Num (PFloat 101)) (Some ''Sell'')
     [(''POP'', [\<lparr>timestamp = 10, order = ''Buy'', quantity = PInt 10, traded_price = PInt 100\<rparr>]),
      (''TEA'', [\<lparr>timestamp = 15, order = ''Buy'', quantity = PInt 1, traded_price = PInt 50\<rparr>])]
   = (Inr \<lparr>timestamp = 20, order = ''Sell'', quantity = PInt 5, traded_price = PFloat 101\<rparr>,
     [(''POP'', [\<lparr>timestamp = 10, order = ''Buy'', quantity = PInt 10, traded_price = PInt 100\<rparr>,
                \<lparr>timestamp = 20, order = ''Sell'', quantity = PInt 5, traded_price = PFloat 101\<rparr>]),
      (''TEA'', [\<lparr>timestamp = 15, order = ''Buy'', quantity = PInt 1, traded_price = PInt 50\<rparr>])])
  \<and> record_trade (\<lambda>s. None) 20 ''POP'' (Num (PInt 5)) (Num (PFloat 101)) (Some ''Hold'')
     [(''TEA'', [\<lparr>timestamp = 15, order = ''Buy'', quantity = PInt 1, traded_price = PInt 50\<rparr>])]
   = (Inl InvalidOrderSide,
      [(''TEA'', [\<lparr>timestamp = 15, order = ''Buy'', quantity = PInt 1, traded_price = PInt 50\<rparr>])])
  \<and> (\<forall>s q p d. CalculateGbce \<noteq> RecordTrade s q p d)
  \<and> snd (step (\<lambda>s. None) (\<lambda>i. 20) CalculateGbce
       [(''TEA'', [\<lparr>timestamp = 15, order = ''Buy'', quantity = PInt 1, traded_price = PInt 50\<rparr>])])
     = [(''TEA'', [\<lparr>timestamp = 15, order = ''Buy'', quantity = PInt 1, traded_price = PInt 50\<rparr>])]"
proof -
  have r1: "record_trade (\<lambda>s. None) 20 ''POP'' (Num (PInt 5)) (Num (PFloat 101)) (Some ''Sell'')
     [(''POP'', [\<lparr>timestamp = 10, order = ''Buy'', quantity = PInt 10, traded_price = PInt 100\<rparr>]),
      (''TEA'', [\<lparr>timestamp = 15, order = ''Buy'', quantity = PInt 1, traded_price = PInt 50\<rparr>])]
   = (Inr \<lparr>timestamp = 20, order = ''Sell'', quantity = PInt 5, traded_price = PFloat 101\<rparr>,
     [(''POP'', [\<lparr>timestamp = 10, order = ''Buy'', quantity = PInt 10, traded_price = PInt 100\<rparr>,
                \<lparr>timestamp = 20, order = ''Sell'', quantity = PInt 5, traded_price = PFloat 101\<rparr>]),
      (''TEA'', [\<lparr>timestamp = 15, order = ''Buy'', quantity = PInt 1, traded_price = PInt 50\<rparr>])])"
    by (simp add: record_trade_def validate_stock_symbol_def exchange_data_def
        str_to_float_def validate_order_def Let_def)
  have r2: "record_trade (\<lambda>s. None) 20 ''POP'' (Num (PInt 5)) (Num (PFloat 101)) (Some ''Hold'')
     [(''TEA'', [\<lparr>timestamp = 15, order = ''Buy'', quantity = PInt 1, traded_price = PInt 50\<rparr>])]
   = (Inl InvalidOrderSide,
      [(''TEA'', [\<lparr>timestamp = 15, order = ''Buy'', quantity = PInt 1, traded_price = PInt 50\<rparr>])])"
    by (simp add: record_trade_def validate_stock_symbol_def exchange_data_def
        str_to_float_def validate_order_def Let_def)
  have r3: "\<forall>s q p d. CalculateGbce \<noteq> RecordTrade s q p d" by simp
  show ?thesis
    using r1 r2 r3 
      record_trade_frame[of "\<lambda>s. None" 20 "''POP''" "Num (PInt 5)" "Num (PFloat 101)" "Some ''Sell''" _ _ _ _ CalculateGbce "\<lambda>i. 20"]
    by simp
qed

lemma step_keeps_nonempty:
  assumes "[] \<notin> snd ` set trades"
  shows "[] \<notin> snd ` set (snd (step pyfloat clock oper trades))"
proof (cases oper)
  case (RecordTrade symbol qty price ord)
  obtain r trades' where
    r: "record_trade pyfloat (clock 0) symbol qty price ord trades = (r, trades')"
    by (cases "record_trade pyfloat (clock 0) symbol qty price ord trades")
  from record_trade_cases[OF r] assms have "[] \<notin> snd ` set trades'"
    by (fastforce split: if_splits)
  with r RecordTrade show ?thesis by simp
qed (use assms in simp_all)

lemma run_keeps_nonempty:
  "[] \<notin> snd ` set trades \<Longrightarrow> [] \<notin> snd ` set (run pyfloat calls trades)"
proof (induction calls arbitrary: trades)
  case Nil
  then show ?case by simp
next
  case (Cons c calls)
  obtain clock oper where c: "c = (clock, oper)" by (cases c)
  from Cons.prems have "[] \<notin> snd ` set (snd (step pyfloat clock oper trades))"
    by (rule step_keeps_nonempty)
  from Cons.IH[OF this] c show ?case by simp
qed

text \<open>
  C10. No method turns a store whose lists are all non-empty into one with an empty list,
  and so, after any calls made on the store of a new exchange, every key of the store
  maps to a list with at least one trade.
\<close>

theorem store_lists_nonempty:
  "([] \<notin> snd ` set trades \<longrightarrow> [] \<notin> snd ` set (snd (step pyfloat clock oper trades)))
 \<and> (\<forall>k \<in> set (map fst (run pyfloat calls [])).
       \<exists>t ts. map_of (run pyfloat calls []) k = Some (t # ts))"
proof -
  have inv: "[] \<notin> snd ` set (run pyfloat calls [])"
    by (rule run_keeps_nonempty) simp
  have "\<exists>t ts. map_of (run pyfloat calls []) k = Some (t # ts)"
    if "k \<in> set (map fst (run pyfloat calls []))" for k
  proof -
    from that obtain l where l: "map_of (run pyfloat calls []) k = Some l"
      by (metis map_of_eq_None_iff not_Some_eq set_map)
    then have "(k, l) \<in> set (run pyfloat calls [])" by (rule map_of_SomeD)
    with inv have "l \<noteq> []" by force
    with l show ?thesis by (cases l) auto
  qed
  with step_keeps_nonempty show ?thesis by blast
qed

theorem store_lists_nonempty_witness:
  "run (\<lambda>s. None)
     [(\<lambda>i. 10, RecordTrade ''POP'' (Num (PInt 10)) (Num (PInt 100)) None),
      (\<lambda>i. 11, CalculateVwsPrice ''POP''),
      (\<lambda>i. 12, RecordTrade ''XYZ'' (Num (PInt 1)) (Num (PInt 1)) None)] []
   = [(''POP'', [\<lparr>timestamp = 10, order = ''Buy'', quantity = PInt 10,
                  traded_price = PInt 100\<rparr>])]
  \<and> (\<exists>t ts. map_of (run (\<lambda>s. None)
     [(\<lambda>i. 10, RecordTrade ''POP'' (Num (PInt 10)) (Num (PInt 100)) None),
      (\<lambda>i. 11, CalculateVwsPrice ''POP''),
      (\<lambda>i. 12, RecordTrade ''XYZ'' (Num (PInt 1)) (Num (PInt 1)) None)] []) ''POP''
      = Some (t # ts))"
proof -
  have r: "run (\<lambda>s. None)
     [(\<lambda>i. 10, RecordTrade ''POP'' (Num (PInt 10)) (Num (PInt 100)) None),
      (\<lambda>i. 11, CalculateVwsPrice ''POP''),
      (\<lambda>i. 12, RecordTrade ''XYZ'' (Num (PInt 1)) (Num (PInt 1)) None)] []
   = [(''POP'', [\<lparr>timestamp = 10, order = ''Buy'', quantity = PInt 10,
                  traded_price = PInt 100\<rparr>])]"
    by (simp add: record_trade_def validate_stock_symbol_def exchange_data_def
        str_to_float_def validate_order_def Let_def)
  have "''POP'' \<in> set (map fst (run (\<lambda>s. None)
     [(\<lambda>i. 10, RecordTrade ''POP'' (Num (PInt 10)) (Num (PInt 100)) None),
      (\<lambda>i. 11, CalculateVwsPrice ''POP''),
      (\<lambda>i. 12, RecordTrade ''XYZ'' (Num (PInt 1)) (Num (PInt 1)) None)] []))"
    unfolding r by simp
  with store_lists_nonempty[of "[]" "\<lambda>s. None" "\<lambda>i. 10" CalculateGbce
     "[(\<lambda>i. 10, RecordTrade ''POP'' (Num (PInt 10)) (Num (PInt 100)) None),
      (\<lambda>i. 11, CalculateVwsPrice ''POP''),
      (\<lambda>i. 12, RecordTrade ''XYZ'' (Num (PInt 1)) (Num (PInt 1)) None)]"] r
  show ?thesis by blast
qed

section \<open>GBCE all share index\<close>

text \<open>
  C6. On a store with no trades \<open>calculate_gbce\<close> returns no number: the division
  \<open>1 / len(self.trades.keys())\<close> raises \<open>ZeroDivisionError\<close>.
\<close>

theorem gbce_empty_store: "calculate_gbce clock [] = Inl ZeroDivisionError"
  by (simp add: calculate_gbce_def num_truediv_def)

lemma gbce_loop_prod:
  assumes "length vs = length syms"
    and "\<forall>j < length syms. calculate_vws_price (clock (i + j)) trades (syms ! j) = Inr (vs ! j)"
  shows "\<exists>r. gbce_loop clock trades i syms acc = Inr r
            \<and> num_val r = num_val acc * prod_list (map num_val vs)"
  using assms
proof (induction syms arbitrary: i acc vs)
  case Nil
  then show ?case by simp
next
  case (Cons symbol rest)
  then obtain v vs' where vs: "vs = v # vs'" by (cases vs) auto
  from Cons.prems(2) have h: "calculate_vws_price (clock i) trades symbol = Inr v"
    using vs by fastforce
  have l: "length vs' = length rest" using Cons.prems(1) vs by simp
  have "\<forall>j < length rest. calculate_vws_price (clock (Suc i + j)) trades (rest ! j) = Inr (vs' ! j)"
  proof (intro allI impI)
    fix j assume "j < length rest"
    then have "Suc j < length (symbol # rest)" by simp
    from Cons.prems(2)[rule_format, OF this] vs
    show "calculate_vws_price (clock (Suc i + j)) trades (rest ! j) = Inr (vs' ! j)" by simp
  qed
  from Cons.IH[OF l this, of "num_mul acc v"] h vs show ?case
    by (auto simp add: algebra_simps)
qed

lemma py_pow_root:
  assumes "0 < n" and "0 \<le> num_val b"
  shows "py_pow b (PFloat (1 / real n)) = Inr (PowFloat (num_val b powr (1 / real n)))"
  using assms by (simp add: py_pow_def Let_def)

lemma py_pow_one: "py_pow b (PFloat 1) = Inr (PowFloat (num_val b))"
  by (simp add: py_pow_def Let_def)

text \<open>
  C2, as the code has it. On a store with at least one key, when the volume weighted
  price of every key is computed without error, to the values \<open>vs\<close> in the order of the
  keys: if the product of \<open>vs\<close> is not negative, \<open>calculate_gbce\<close> returns that product
  raised to the power 1 / (number of keys), rounded to 3 decimals, a tie going to the even
  digit; and with exactly one key it returns that key's volume weighted price rounded so.
  Only the keys of the store enter the product, not the symbols of the catalogue.
\<close>

theorem gbce_geometric_mean:
  assumes "trades \<noteq> []"
    and "length vs = length trades"
    and "\<forall>j < length trades.
           calculate_vws_price (clock j) trades (fst (trades ! j)) = Inr (vs ! j)"
  shows "(0 \<le> prod_list (map num_val vs) \<longrightarrow>
            calculate_gbce clock trades =
              Inr (PFloat (of_int (round_half_even
                     (prod_list (map num_val vs) powr (1 / real (length trades)) * 1000))
                   / 1000)))
       \<and> (length trades = 1 \<longrightarrow>
            calculate_gbce clock trades =
              Inr (PFloat (of_int (round_half_even (num_val (vs ! 0) * 1000)) / 1000)))"
proof -
  have "\<forall>j < length (map fst trades).
          calculate_vws_price (clock (0 + j)) trades (map fst trades ! j) = Inr (vs ! j)"
    using assms(3) by simp
  from gbce_loop_prod[OF _ this, of "PInt 1"] assms(2)
  obtain r where r: "gbce_loop clock trades 0 (map fst trades) (PInt 1) = Inr r"
    and v: "num_val r = prod_list (map num_val vs)"
    by auto
  have n: "0 < length trades" using assms(1) by simp
  have e: "num_truediv (PInt 1) (PInt (int (length (map fst trades))))
             = Inr (PFloat (1 / real (length trades)))"
    using n by (simp add: num_truediv_def)
  have g: "calculate_gbce clock trades =
      (case py_pow r (PFloat (1 / real (length trades))) of
         Inl e \<Rightarrow> Inl e | Inr gbce \<Rightarrow> py_round gbce 3)"
    using assms(1) r e by (simp add: calculate_gbce_def)
  have nonneg: "calculate_gbce clock trades =
      Inr (PFloat (of_int (round_half_even
             (prod_list (map num_val vs) powr (1 / real (length trades)) * 1000)) / 1000))"
    if "0 \<le> prod_list (map num_val vs)"
    using that g v py_pow_root[OF n, of r] by (simp add: py_round_def)
  have single: "calculate_gbce clock trades =
      Inr (PFloat (of_int (round_half_even (num_val (vs ! 0) * 1000)) / 1000))"
    if "length trades = 1"
  proof -
    from that assms(2) obtain v0 where "vs = [v0]" by (cases vs) auto
    with that g v py_pow_one[of r] show ?thesis by (simp add: py_round_def)
  qed
  from nonneg single show ?thesis by blast
qed

text \<open>
  With a negative product and more than one key the power is a complex number, which
  \<open>round\<close> refuses: \<open>record_trade\<close> accepts the price -1, both prices are computed, and
  the index is a \<open>TypeError\<close>.
\<close>

theorem gbce_geometric_mean_counterexample:
  "run (\<lambda>s. None)
     [(\<lambda>i. 1000, RecordTrade ''TEA'' (Num (PInt 1)) (Num (PInt (- 1))) None),
      (\<lambda>i. 1000, RecordTrade ''POP'' (Num (PInt 1)) (Num (PInt 1)) None)] []
    = [(''TEA'', [\<lparr>timestamp = 1000, order = ''Buy'', quantity = PInt 1,
                   traded_price = PInt (- 1)\<rparr>]),
       (''POP'', [\<lparr>timestamp = 1000, order = ''Buy'', quantity = PInt 1,
                   traded_price = PInt 1\<rparr>])]
   \<and> calculate_vws_price 1000
       [(''TEA'', [\<lparr>timestamp = 1000, order = ''Buy'', quantity = PInt 1,
                   traded_price = PInt (- 1)\<rparr>]),
        (''POP'', [\<lparr>timestamp = 1000, order = ''Buy'', quantity = PInt 1,
                   traded_price = PInt 1\<rparr>])] ''TEA'' = Inr (PFloat (- 1))
   \<and> calculate_vws_price 1000
       [(''TEA'', [\<lparr>timestamp = 1000, order = ''Buy'', quantity = PInt 1,
                   traded_price = PInt (- 1)\<rparr>]),
        (''POP'', [\<lparr>timestamp = 1000, order = ''Buy'', quantity = PInt 1,
                   traded_price = PInt 1\<rparr>])] ''POP'' = Inr (PFloat 1)
   \<and> calculate_gbce (\<lambda>i. 1000)
       [(''TEA'', [\<lparr>timestamp = 1000, order = ''Buy'', quantity = PInt 1,
                   traded_price = PInt (- 1)\<rparr>]),
        (''POP'', [\<lparr>timestamp = 1000, order = ''Buy'', quantity = PInt 1,
                   traded_price = PInt 1\<rparr>])] = Inl TypeError"
  by (simp add: record_trade_def calculate_vws_price_def validate_stock_symbol_def
      exchange_data_def str_to_float_def validate_order_def num_truediv_def Let_def
      calculate_gbce_def py_pow_def py_round_def)

lemma powr_36: "(36::real) powr (1 / 2) = 6"
proof -
  have "(36::real) = 6\<^sup>2" by simp
  then have "sqrt (36::real) = \<bar>6\<bar>" by (simp only: real_sqrt_abs)
  then show ?thesis by (simp add: powr_half_sqrt)
qed

theorem gbce_geometric_mean_witness:
  "calculate_gbce (\<lambda>i. 1000)
     [(''POP'', [\<lparr>timestamp = 990, order = ''Buy'', quantity = PInt 10,
                 traded_price = PInt 100\<rparr>])] = Inr (PFloat 100)
   \<and> calculate_gbce (\<lambda>i. 1000)
     [(''TEA'', [\<lparr>timestamp = 990, order = ''Buy'', quantity = PInt 5,
                 traded_price = PInt 4\<rparr>]),
      (''GIN'', [\<lparr>timestamp = 995, order = ''Sell'', quantity = PInt 2,
                 traded_price = PInt 9\<rparr>])] = Inr (PFloat 6)"
proof -
  have v1: "\<forall>j < length [(''POP'', [\<lparr>timestamp = 990, order = ''Buy'', quantity = PInt 10,
                 traded_price = PInt 100\<rparr>])].
      calculate_vws_price 1000 [(''POP'', [\<lparr>timestamp = 990, order = ''Buy'',
                 quantity = PInt 10, traded_price = PInt 100\<rparr>])]
        (fst ([(''POP'', [\<lparr>timestamp = 990, order = ''Buy'', quantity = PInt 10,
                 traded_price = PInt 100\<rparr>])] ! j)) = Inr ([PFloat 100] ! j)"
    by (simp add: calculate_vws_price_def validate_stock_symbol_def exchange_data_def
        num_truediv_def)
  have v2: "\<forall>j < length [(''TEA'', [\<lparr>timestamp = 990, order = ''Buy'', quantity = PInt 5,
                 traded_price = PInt 4\<rparr>]),
      (''GIN'', [\<lparr>timestamp = 995, order = ''Sell'', quantity = PInt 2,
                 traded_price = PInt 9\<rparr>])].
      calculate_vws_price 1000 [(''TEA'', [\<lparr>timestamp = 990, order = ''Buy'', quantity = PInt 5,
                 traded_price = PInt 4\<rparr>]),
      (''GIN'', [\<lparr>timestamp = 995, order = ''Sell'', quantity = PInt 2,
                 traded_price = PInt 9\<rparr>])]
        (fst ([(''TEA'', [\<lparr>timestamp = 990, order = ''Buy'', quantity = PInt 5,
                 traded_price = PInt 4\<rparr>]),
      (''GIN'', [\<lparr>timestamp = 995, order = ''Sell'', quantity = PInt 2,
                 traded_price = PInt 9\<rparr>])] ! j)) = Inr ([PFloat 4, PFloat 9] ! j)"
    by (simp add: calculate_vws_price_def validate_stock_symbol_def exchange_data_def
        num_truediv_def less_Suc_eq)
  have r1: "round_half_even 100000 = 100000"
    by (simp add: round_half_even_def Let_def)
  have r2: "round_half_even 6000 = 6000"
    by (simp add: round_half_even_def Let_def)
  from gbce_geometric_mean[OF _ _ v1] gbce_geometric_mean[OF _ _ v2]
  show ?thesis by (simp add: powr_36 r1 r2)
qed

section \<open>Numbers given as strings\<close>

lemma trade_eq_refl: "trade_eq t t"
  by (simp add: trade_eq_def num_eq_def)

lemma trades_eq_refl: "trades_eq a a"
  by (simp add: trades_eq_def list.rel_refl trade_eq_refl)

lemma trades_eq_new:
  "trade_eq t u \<Longrightarrow> trades_eq (trades @ [(symbol, [t])]) (trades @ [(symbol, [u])])"
  by (simp add: trades_eq_def list_all2_appendI list.rel_refl trade_eq_refl)

lemma trade_list_eq_snoc:
  "trade_eq t u \<Longrightarrow> list_all2 trade_eq (ts @ [t]) (ts @ [u])"
  by (simp add: list_all2_appendI list.rel_refl trade_eq_refl)

lemma trades_eq_extend:
  "trade_eq t u \<Longrightarrow>
   trades_eq (map (\<lambda>(k, ts). if k = symbol then (k, ts @ [t]) else (k, ts)) trades)
             (map (\<lambda>(k, ts). if k = symbol then (k, ts @ [u]) else (k, ts)) trades)"
  by (auto simp add: trades_eq_def list.rel_map trade_list_eq_snoc trade_eq_refl
      intro!: list.rel_refl split: prod.splits)

lemma record_trade_cong:
  assumes "rel_sum (=) num_eq (str_to_float pyfloat q1) (str_to_float pyfloat q2)"
    and "rel_sum (=) num_eq (str_to_float pyfloat p1) (str_to_float pyfloat p2)"
  shows "rel_prod (rel_sum (=) trade_eq) trades_eq
           (record_trade pyfloat now symbol q1 p1 ord trades)
           (record_trade pyfloat now symbol q2 p2 ord trades)"
  using assms
  by (auto simp add: record_trade_def Let_def trades_eq_refl trade_eq_def
      intro!: trades_eq_new trades_eq_extend
      split: sum.splits elim!: rel_sum.cases)

lemma str_to_float_denotes:
  "pyfloat s = Some x \<Longrightarrow> num_val n = x \<Longrightarrow>
   rel_sum (=) num_eq (str_to_float pyfloat (Str s)) (str_to_float pyfloat (Num n))"
  by (simp add: str_to_float_def num_eq_def)

lemma str_to_float_refl: "rel_sum (=) num_eq (str_to_float pyfloat v) (str_to_float pyfloat v)"
  by (cases "str_to_float pyfloat v") (simp_all add: num_eq_def)

lemma yield_cong:
  assumes "rel_sum (=) num_eq (str_to_float pyfloat p1) (str_to_float pyfloat p2)"
  shows "calculate_dividend_yield pyfloat symbol p1 = calculate_dividend_yield pyfloat symbol p2"
  using assms
  by (auto simp add: calculate_dividend_yield_def num_truediv_def num_eq_def
      split: sum.splits option.splits elim!: rel_sum.cases)

lemma pe_cong:
  assumes "rel_sum (=) num_eq (str_to_float pyfloat p1) (str_to_float pyfloat p2)"
  shows "calculate_pe_ratio pyfloat symbol p1 = calculate_pe_ratio pyfloat symbol p2"
proof (cases "str_to_float pyfloat p1")
  case (Inl e)
  with assms have "str_to_float pyfloat p2 = Inl e" by (auto elim: rel_sum.cases)
  with Inl show ?thesis by (simp add: calculate_pe_ratio_def split: sum.splits)
next
  case (Inr a)
  with assms obtain b where b: "str_to_float pyfloat p2 = Inr b" and ab: "num_val a = num_val b"
    by (auto simp add: num_eq_def elim: rel_sum.cases)
  have "calculate_dividend_yield pyfloat s (Num a) = calculate_dividend_yield pyfloat s (Num b)" for s
    by (rule yield_cong) (simp add: str_to_float_def num_eq_def ab)
  with Inr b ab show ?thesis
    by (simp add: calculate_pe_ratio_def num_truediv_def split: sum.splits)
qed

text \<open>
  C8, as the code has it. When \<open>float\<close> reads the string \<open>s\<close> as the number \<open>x\<close> and
  \<open>n\<close> is that number as an integer or a float, every method that takes a price or a
  quantity gives with \<open>s\<close> the result it gives with \<open>n\<close>, value or error (for
  \<open>record_trade\<close>: equal trades and equal stores); a number is returned by the coercion
  as it is; a string that \<open>float\<close> refuses makes the coercion fail with
  \<open>InvalidNumericFormat\<close>, and with it every such method called with a symbol of the
  catalogue.
\<close>

theorem numeric_strings_spec:
  "(pyfloat s = Some x \<and> num_val n = x \<longrightarrow>
      rel_sum (=) num_eq (str_to_float pyfloat (Str s)) (str_to_float pyfloat (Num n))
    \<and> calculate_dividend_yield pyfloat symbol (Str s)
        = calculate_dividend_yield pyfloat symbol (Num n)
    \<and> calculate_pe_ratio pyfloat symbol (Str s) = calculate_pe_ratio pyfloat symbol (Num n)
    \<and> rel_prod (rel_sum (=) trade_eq) trades_eq
        (record_trade pyfloat now symbol (Str s) price ord trades)
        (record_trade pyfloat now symbol (Num n) price ord trades)
    \<and> rel_prod (rel_sum (=) trade_eq) trades_eq
        (record_trade pyfloat now symbol qty (Str s) ord trades)
        (record_trade pyfloat now symbol qty (Num n) ord trades))
 \<and> str_to_float pyfloat (Num n) = Inr n
 \<and> (pyfloat s = None \<longrightarrow> str_to_float pyfloat (Str s) = Inl InvalidNumericFormat)
 \<and> (pyfloat s = None \<and> symbol \<in> set (map fst exchange_data) \<longrightarrow>
      calculate_dividend_yield pyfloat symbol (Str s) = Inl InvalidNumericFormat
    \<and> calculate_pe_ratio pyfloat symbol (Str s) = Inl InvalidNumericFormat
    \<and> record_trade pyfloat now symbol (Str s) price ord trades
        = (Inl InvalidNumericFormat, trades)
    \<and> record_trade pyfloat now symbol qty (Str s) ord trades
        = (Inl InvalidNumericFormat, trades))"
proof -
  have same: "rel_sum (=) num_eq (str_to_float pyfloat (Str s)) (str_to_float pyfloat (Num n))
    \<and> calculate_dividend_yield pyfloat symbol (Str s)
        = calculate_dividend_yield pyfloat symbol (Num n)
    \<and> calculate_pe_ratio pyfloat symbol (Str s) = calculate_pe_ratio pyfloat symbol (Num n)
    \<and> rel_prod (rel_sum (=) trade_eq) trades_eq
        (record_trade pyfloat now symbol (Str s) price ord trades)
        (record_trade pyfloat now symbol (Num n) price ord trades)
    \<and> rel_prod (rel_sum (=) trade_eq) trades_eq
        (record_trade pyfloat now symbol qty (Str s) ord trades)
        (record_trade pyfloat now symbol qty (Num n) ord trades)"
    if "pyfloat s = Some x \<and> num_val n = x"
  proof -
    from that have d: "rel_sum (=) num_eq (str_to_float pyfloat (Str s)) (str_to_float pyfloat (Num n))"
      by (simp add: str_to_float_denotes)
    show ?thesis
      using d yield_cong[OF d] pe_cong[OF d]
        record_trade_cong[OF d str_to_float_refl] record_trade_cong[OF str_to_float_refl d]
      by simp
  qed
  have pass: "str_to_float pyfloat (Num n) = Inr n"
    by (simp add: str_to_float_def)
  have bad: "str_to_float pyfloat (Str s) = Inl InvalidNumericFormat" if "pyfloat s = None"
    using that by (simp add: str_to_float_def)
  have ops: "calculate_dividend_yield pyfloat symbol (Str s) = Inl InvalidNumericFormat
    \<and> calculate_pe_ratio pyfloat symbol (Str s) = Inl InvalidNumericFormat
    \<and> record_trade pyfloat now symbol (Str s) price ord trades
        = (Inl InvalidNumericFormat, trades)
    \<and> record_trade pyfloat now symbol qty (Str s) ord trades
        = (Inl InvalidNumericFormat, trades)"
    if "pyfloat s = None \<and> symbol \<in> set (map fst exchange_data)"
  proof -
    from that have b: "str_to_float pyfloat (Str s) = Inl InvalidNumericFormat"
      and v: "validate_stock_symbol symbol = Inr symbol"
      by (simp_all add: str_to_float_def validate_valid)
    have q: "str_to_float pyfloat qty = Inl InvalidNumericFormat \<or> (\<exists>a. str_to_float pyfloat qty = Inr a)"
      by (cases qty) (auto simp add: str_to_float_def split: option.splits)
    from b v q show ?thesis
      by (auto simp add: calculate_dividend_yield_def calculate_pe_ratio_def record_trade_def)
  qed
  from same pass bad ops show ?thesis by blast
qed

theorem numeric_strings_spec_witness:
  "(\<lambda>s. if s = ''100'' then Some 100 else None) ''100'' = Some 100
   \<and> num_val (PInt 100) = 100
   \<and> calculate_pe_ratio (\<lambda>s. if s = ''100'' then Some 100 else None) ''POP'' (Str ''100'')
       = calculate_pe_ratio (\<lambda>s. if s = ''100'' then Some 100 else None) ''POP''
           (Num (PInt 100))
   \<and> rel_prod (rel_sum (=) trade_eq) trades_eq
        (record_trade (\<lambda>s. if s = ''100'' then Some 100 else None) 7 ''POP'' (Str ''100'')
           (Num (PInt 3)) None [])
        (record_trade (\<lambda>s. if s = ''100'' then Some 100 else None) 7 ''POP'' (Num (PInt 100))
           (Num (PInt 3)) None [])
   \<and> (\<lambda>s. if s = ''100'' then Some 100 else None) ''abc'' = None
   \<and> ''POP'' \<in> set (map fst exchange_data)
   \<and> record_trade (\<lambda>s. if s = ''100'' then Some 100 else None) 7 ''POP'' (Num (PInt 1))
        (Str ''abc'') None [] = (Inl InvalidNumericFormat, [])"
  using numeric_strings_spec[where pyfloat = "\<lambda>s. if s = ''100'' then Some 100 else None"
      and s = "''100''" and x = 100 and n = "PInt 100" and symbol = "''POP''" and now = 7
      and price = "Num (PInt 3)" and ord = None and trades = "[]"]
    numeric_strings_spec[where pyfloat = "\<lambda>s. if s = ''100'' then Some 100 else None"
      and s = "''abc''" and symbol = "''POP''" and now = 7
      and qty = "Num (PInt 1)" and ord = None and trades = "[]"]
  by (simp add: exchange_data_def)

text \<open>
  The symbol is validated before the number is coerced: with a symbol outside the
  catalogue the failure is \<open>UnknownSymbol\<close>, whatever the string.
\<close>

theorem numeric_strings_spec_counterexample:
  "(\<lambda>s. if s = ''100'' then Some 100 else None) ''abc'' = None
   \<and> calculate_dividend_yield (\<lambda>s. if s = ''100'' then Some 100 else None) ''XYZ'' (Str ''abc'')
       = Inl UnknownSymbol
   \<and> Inl UnknownSymbol \<noteq> (Inl InvalidNumericFormat :: error + pynum)"
  by (simp add: calculate_dividend_yield_def validate_stock_symbol_def exchange_data_def)

end
